theory Spec2Isabelle
  imports Main
begin

section \<open>Table-mode page of a compliance assessment: the state synchronisation logic\<close>

text \<open>
  The development embeds the script part and the event handlers of
  \<^verbatim>\<open>compliance-assessments/[id=uuid]/table-mode/+page.svelte\<close>.
  JavaScript objects become records, a property that holds a string, \<^verbatim>\<open>null\<close> or
  \<^verbatim>\<open>undefined\<close> becomes a value of \<open>jsval\<close>, in-place mutation becomes a returned, updated
  record, and a \<^verbatim>\<open>TypeError\<close> raised by a property access on \<^verbatim>\<open>undefined\<close> or \<^verbatim>\<open>null\<close>
  becomes an error value.
\<close>

subsection \<open>Data\<close>

datatype error = TypeError

text \<open>
  A string-valued property. Strict equality \<^verbatim>\<open>===\<close> on these values is equality of the
  datatype: \<^verbatim>\<open>null\<close> and \<^verbatim>\<open>undefined\<close> differ, two strings are equal when their characters
  are.
\<close>

datatype jsval = Undefined | Null | Str string

text \<open>Truthiness, as \<^verbatim>\<open>c ? a : b\<close> tests it: a string other than the empty one.\<close>

definition truthy :: "jsval \<Rightarrow> bool" where
  "truthy v = (case v of Str s \<Rightarrow> s \<noteq> [] | _ \<Rightarrow> False)"

text \<open>\<^verbatim>\<open>v ?? ''\<close>, and the string a truthy value is rendered as.\<close>

definition or_empty :: "jsval \<Rightarrow> string" where
  "or_empty v = (case v of Str s \<Rightarrow> s | _ \<Rightarrow> [])"

text \<open>An evidence reference as the template reads it: \<^verbatim>\<open>evidence.str\<close>, \<^verbatim>\<open>evidence.id\<close>.\<close>

record evidence =
  str :: string
  ev_id :: string

text \<open>
  A question of an answer bundle. Its \<^verbatim>\<open>answer\<close> is a string, \<^verbatim>\<open>null\<close> (the single-choice
  handler writes \<^verbatim>\<open>null\<close> on deselection) or absent.
\<close>

record question =
  urn :: string
  q_text :: string
  q_type :: string
  options :: "string list"
  q_answer :: jsval

record answer_bundle =
  questions :: "question list"

text \<open>
  The objects of \<^verbatim>\<open>data.requirements\<close> and \<^verbatim>\<open>data.requirement_assessments\<close>. The code reads
  the same properties from both (\<^verbatim>\<open>title\<close> falls back from the one to the other), so one
  record type serves both. \<open>answer = None\<close> stands for an answer that is \<^verbatim>\<open>null\<close> or has no
  question list: the template shows no question then. \<open>evidences = None\<close> stands for a
  record without an evidence array (the template tests \<^verbatim>\<open>evidences != null\<close>).
\<close>

record requirementAssessment =
  ra_id :: string
  requirement :: string
  display_short :: jsval
  name :: jsval
  description :: jsval
  assessable :: bool
  status :: string
  result :: string
  answer :: "answer_bundle option"
  observation :: jsval
  observationBuffer :: jsval
  evidences :: "evidence list option"

text \<open>The \<^verbatim>\<open>form.createdEvidence\<close> object handed back by the evidence creation action.\<close>

record created_evidence =
  ce_id :: string
  ce_name :: string
  ce_requirements :: "string list"

text \<open>
  The component's variables that the script block reads and writes: the two collections of
  \<^verbatim>\<open>data\<close>, the \<^verbatim>\<open>shallow\<close> property, the pending \<^verbatim>\<open>createdEvidence\<close> and the counter
  \<^verbatim>\<open>addedEvidence\<close> the \<^verbatim>\<open>{#key}\<close> blocks of the template depend on.
\<close>

record component =
  requirements :: "requirementAssessment list"
  requirement_assessments :: "requirementAssessment list"
  shallow :: bool
  createdEvidence :: "created_evidence option"
  addedEvidence :: int

text \<open>
  The value under the computed key of \<^verbatim>\<open>formData\<close>: the scalar passed in, or the whole answer
  bundle once the question branch has replaced \<^verbatim>\<open>value\<close>.
\<close>

datatype payload = Scalar jsval | Bundle answer_bundle

text \<open>What \<^verbatim>\<open>fetch\<close> is called with; \<open>body\<close> is \<^verbatim>\<open>formData\<close> before serialisation.\<close>

record request =
  url :: string
  http_method :: string
  body :: "(string \<times> payload) list"

subsection \<open>JavaScript array and object primitives\<close>

text \<open>\<^verbatim>\<open>Array.prototype.findIndex\<close>: the first index whose element satisfies \<open>P\<close>, or \<open>-1\<close>.\<close>

fun findIndex :: "('a \<Rightarrow> bool) \<Rightarrow> 'a list \<Rightarrow> int" where
  "findIndex P [] = - 1"
| "findIndex P (x # xs) =
     (if P x then 0 else (let i = findIndex P xs in if i < 0 then - 1 else i + 1))"

text \<open>\<^verbatim>\<open>xs[i]\<close>: \<^verbatim>\<open>undefined\<close> outside the array, in particular at \<open>-1\<close>.\<close>

definition at_index :: "'a list \<Rightarrow> int \<Rightarrow> 'a option" where
  "at_index xs i = (if 0 \<le> i \<and> i < int (length xs) then Some (xs ! nat i) else None)"

text \<open>
  An object literal \<^verbatim>\<open>{ ..., [k]: v }\<close>: a later key replaces the value of an equal earlier
  key and keeps its place, a new key is appended.
\<close>

fun assign :: "'k \<Rightarrow> 'v \<Rightarrow> ('k \<times> 'v) list \<Rightarrow> ('k \<times> 'v) list" where
  "assign k v [] = [(k, v)]"
| "assign k v (p # ps) = (if fst p = k then (k, v) # ps else p # assign k v ps)"

text \<open>
  \<^verbatim>\<open>Object.fromEntries\<close>: the entries are stored from left to right, so the last entry of
  a key is the one kept.
\<close>

fun fromEntries :: "('k \<times> 'v) list \<Rightarrow> ('k \<Rightarrow> 'v option)" where
  "fromEntries [] = (\<lambda>k. None)"
| "fromEntries (e # es) =
     (\<lambda>k. case fromEntries es k of Some v \<Rightarrow> Some v
           | None \<Rightarrow> (if fst e = k then Some (snd e) else None))"

subsection \<open>Record index and title\<close>

text \<open>
  The properties that a plain object inherits from \<^verbatim>\<open>Object.prototype\<close>, each with the
  \<^verbatim>\<open>name\<close> of its value: the functions carry their own name, \<^verbatim>\<open>constructor\<close> is the
  function \<^verbatim>\<open>Object\<close>, and \<^verbatim>\<open>__proto__\<close> yields the prototype object, which has no
  \<^verbatim>\<open>name\<close>. None of these values has a \<^verbatim>\<open>display_short\<close>.
\<close>

definition object_prototype :: "(string \<times> jsval) list" where
  "object_prototype =
     [(''constructor'', Str ''Object''),
      (''hasOwnProperty'', Str ''hasOwnProperty''),
      (''isPrototypeOf'', Str ''isPrototypeOf''),
      (''propertyIsEnumerable'', Str ''propertyIsEnumerable''),
      (''toLocaleString'', Str ''toLocaleString''),
      (''toString'', Str ''toString''),
      (''valueOf'', Str ''valueOf''),
      (''__defineGetter__'', Str ''__defineGetter__''),
      (''__defineSetter__'', Str ''__defineSetter__''),
      (''__lookupGetter__'', Str ''__lookupGetter__''),
      (''__lookupSetter__'', Str ''__lookupSetter__''),
      (''__proto__'', Undefined)]"

text \<open>
  What \<^verbatim>\<open>obj[key]\<close> evaluates to on a plain object of records when it is not \<^verbatim>\<open>undefined\<close>:
  the record stored under the key, or else an inherited value, given by its \<^verbatim>\<open>name\<close>.
\<close>

datatype indexed = Stored requirementAssessment | Inherited jsval

definition get_property ::
  "(string \<Rightarrow> requirementAssessment option) \<Rightarrow> string \<Rightarrow> indexed option" where
  "get_property own key =
     (case own key of
        Some r \<Rightarrow> Some (Stored r)
      | None \<Rightarrow> map_option Inherited (map_of object_prototype key))"

text \<open>
  \<^verbatim>\<open>requirementHashmap\<close>, as a lookup: the object that \<^verbatim>\<open>Object.fromEntries\<close> builds from
  \<^verbatim>\<open>data.requirements\<close>, read at a key.
\<close>

definition requirementHashmap :: "requirementAssessment list \<Rightarrow> (string \<Rightarrow> indexed option)" where
  "requirementHashmap reqs =
     get_property (fromEntries (map (\<lambda>requirement. (ra_id requirement, requirement)) reqs))"

definition display_short_of :: "indexed \<Rightarrow> jsval" where
  "display_short_of x = (case x of Stored r \<Rightarrow> display_short r | Inherited n \<Rightarrow> Undefined)"

definition name_of :: "indexed \<Rightarrow> jsval" where
  "name_of x = (case x of Stored r \<Rightarrow> name r | Inherited n \<Rightarrow> n)"

text \<open>
  \<^verbatim>\<open>title\<close>: \<^verbatim>\<open>??\<close> takes the assessment when the lookup gives \<^verbatim>\<open>undefined\<close>;
  \<^verbatim>\<open>display_short ? ... : ...\<close> tests truthiness, so an empty short name counts as
  absent; \<^verbatim>\<open>name ?? ''\<close> replaces only \<^verbatim>\<open>null\<close>/\<^verbatim>\<open>undefined\<close>.
\<close>

definition title :: "requirementAssessment list \<Rightarrow> requirementAssessment \<Rightarrow> string" where
  "title reqs ra =
     (let req = (case requirementHashmap reqs (requirement ra) of
                   Some r \<Rightarrow> r
                 | None \<Rightarrow> Stored ra)
      in if truthy (display_short_of req) then or_empty (display_short_of req)
         else or_empty (name_of req))"

subsection \<open>Field update\<close>

text \<open>
  The document, as far as \<^verbatim>\<open>update\<close> reads it: \<^verbatim>\<open>getElementById\<close> followed by
  \<^verbatim>\<open>.action\<close>. The template renders one form \<^verbatim>\<open>tableModeForm-{id}\<close> with the action
  \<^verbatim>\<open>{actionPath}?/updateRequirementAssessment\<close> for each assessable assessment.
\<close>

type_synonym document = "string \<Rightarrow> string option"

definition form_id :: "requirementAssessment \<Rightarrow> string" where
  "form_id ra = ''tableModeForm-'' @ ra_id ra"

definition rendered_forms :: "string \<Rightarrow> requirementAssessment list \<Rightarrow> document" where
  "rendered_forms actionPath ras =
     (\<lambda>element_id.
        case find (\<lambda>ra. assessable ra \<and> form_id ra = element_id) ras of
          Some ra \<Rightarrow> Some (actionPath @ ''?/updateRequirementAssessment'')
        | None \<Rightarrow> None)"

text \<open>
  Lines 71 to 79 of \<^verbatim>\<open>update\<close>: look the form up, build \<^verbatim>\<open>formData\<close>, call \<^verbatim>\<open>fetch\<close>
  without awaiting it. Reading \<^verbatim>\<open>.action\<close> of a missing form raises.
\<close>

definition post ::
  "document \<Rightarrow> requirementAssessment \<Rightarrow> string \<Rightarrow> payload \<Rightarrow>
   requirementAssessment \<times> (error + request)" where
  "post doc ra field v =
     (case doc (form_id ra) of
        None \<Rightarrow> (ra, Inl TypeError)
      | Some action \<Rightarrow>
          (ra, Inr \<lparr>url = action, http_method = ''POST'',
                    body = assign field v [(''id'', Scalar (Str (ra_id ra)))]\<rparr>))"

text \<open>
  \<^verbatim>\<open>update(requirementAssessment, field, value, question = '')\<close>. The result is the
  assessment as the call leaves it, and either the error raised or the request dispatched.
  With a question: \<^verbatim>\<open>findIndex\<close> by \<^verbatim>\<open>urn\<close>, the write to \<^verbatim>\<open>questions[questionIndex].answer\<close>
  (which raises when the element is \<^verbatim>\<open>undefined\<close>), then \<^verbatim>\<open>value = answer\<close>.
\<close>

definition update ::
  "document \<Rightarrow> requirementAssessment \<Rightarrow> string \<Rightarrow> jsval \<Rightarrow> question option \<Rightarrow>
   requirementAssessment \<times> (error + request)" where
  "update doc ra field newValue qu =
     (case qu of
        None \<Rightarrow> post doc ra field (Scalar newValue)
      | Some q \<Rightarrow>
          (case answer ra of
             None \<Rightarrow> (ra, Inl TypeError)
           | Some b \<Rightarrow>
               (let questionIndex = findIndex (\<lambda>x. urn x = urn q) (questions b)
                in case at_index (questions b) questionIndex of
                     None \<Rightarrow> (ra, Inl TypeError)
                   | Some target \<Rightarrow>
                       (let b' = b\<lparr>questions :=
                                     (questions b)[nat questionIndex :=
                                        target\<lparr>q_answer := newValue\<rparr>]\<rparr>;
                            ra' = ra\<lparr>answer := Some b'\<rparr>
                        in post doc ra' field (Bundle b')))))"

subsection \<open>Click handlers of the template\<close>

text \<open>
  The ternary of the three single-select handlers,
  \<^verbatim>\<open>current === option ? defaultValue : option\<close> (status, result and single-choice
  answer).
\<close>

definition nextValue :: "'a \<Rightarrow> 'a \<Rightarrow> 'a \<Rightarrow> 'a" where
  "nextValue current clicked defaultValue =
     (if current = clicked then defaultValue else clicked)"

text \<open>
  A handler's outcome: the assessment as the handler leaves it, and the error it raised or
  the requests it dispatched. The statements that follow a call of \<^verbatim>\<open>update\<close> run only
  when the call has returned.
\<close>

definition and_then ::
  "requirementAssessment \<times> (error + request) \<Rightarrow> (requirementAssessment \<Rightarrow> requirementAssessment) \<Rightarrow>
   requirementAssessment \<times> (error + request list)" where
  "and_then r rest =
     (case r of
        (ra, Inl e) \<Rightarrow> (ra, Inl e)
      | (ra, Inr rq) \<Rightarrow> (rest ra, Inr [rq]))"

text \<open>The \<^verbatim>\<open>on:click\<close> of a status radio item.\<close>

definition status_click ::
  "document \<Rightarrow> requirementAssessment \<Rightarrow> string \<Rightarrow>
   requirementAssessment \<times> (error + request list)" where
  "status_click doc ra option_id =
     (let newStatus = nextValue (status ra) option_id ''to_do'';
          ra' = ra\<lparr>status := newStatus\<rparr>
      in and_then (update doc ra' ''status'' (Str newStatus) None) (\<lambda>r. r))"

text \<open>The \<^verbatim>\<open>on:click\<close> of a result radio item.\<close>

definition result_click ::
  "document \<Rightarrow> requirementAssessment \<Rightarrow> string \<Rightarrow>
   requirementAssessment \<times> (error + request list)" where
  "result_click doc ra option_id =
     (let newResult = nextValue (result ra) option_id ''not_assessed'';
          ra' = ra\<lparr>result := newResult\<rparr>
      in and_then (update doc ra' ''result'' (Str newResult) None) (\<lambda>r. r))"

text \<open>
  The \<^verbatim>\<open>on:click\<close> of the radio item of an option of the \<open>k\<close>-th question. The each-block
  creates these handlers for the questions of the bundle only, hence \<open>None\<close> elsewhere. The
  handler writes the answer of the question it closes over, then calls \<^verbatim>\<open>update\<close> with it.
\<close>

definition question_click ::
  "document \<Rightarrow> requirementAssessment \<Rightarrow> nat \<Rightarrow> string \<Rightarrow>
   (requirementAssessment \<times> (error + request list)) option" where
  "question_click doc ra k opt =
     (case answer ra of
        None \<Rightarrow> None
      | Some b \<Rightarrow>
          (case at_index (questions b) (int k) of
             None \<Rightarrow> None
           | Some q \<Rightarrow>
               (let newAnswer = nextValue (q_answer q) (Str opt) Null;
                    q' = q\<lparr>q_answer := newAnswer\<rparr>;
                    ra' = ra\<lparr>answer := Some (b\<lparr>questions := (questions b)[k := q']\<rparr>)\<rparr>
                in Some (and_then (update doc ra' ''answer'' newAnswer (Some q')) (\<lambda>r. r)))))"

text \<open>
  The observation area: the two buttons are inside the form of an assessable assessment, in
  the branch for a page that is not shallow, under
  \<^verbatim>\<open>{#if observationBuffer !== observation}\<close>.
\<close>

definition renders_observation_buttons :: "bool \<Rightarrow> requirementAssessment \<Rightarrow> bool" where
  "renders_observation_buttons is_shallow ra =
     (assessable ra \<and> \<not> is_shallow \<and> observationBuffer ra \<noteq> observation ra)"

text \<open>The check button: \<^verbatim>\<open>update\<close>, then the buffer takes the observation.\<close>

definition observation_save ::
  "document \<Rightarrow> requirementAssessment \<Rightarrow> requirementAssessment \<times> (error + request list)" where
  "observation_save doc ra =
     and_then (update doc ra ''observation'' (observation ra) None)
       (\<lambda>r. r\<lparr>observationBuffer := observation r\<rparr>)"

text \<open>The cross button: a single assignment.\<close>

definition observation_cancel ::
  "requirementAssessment \<Rightarrow> requirementAssessment \<times> (error + request list)" where
  "observation_cancel ra = (ra\<lparr>observation := observationBuffer ra\<rparr>, Inr [])"

subsection \<open>Evidence merge and evidence removal\<close>

text \<open>
  A write through the reference that \<^verbatim>\<open>Array.prototype.find\<close> returns changes the first
  element that satisfies the predicate, in place.
\<close>

fun mutate_first :: "('a \<Rightarrow> bool) \<Rightarrow> ('a \<Rightarrow> 'a) \<Rightarrow> 'a list \<Rightarrow> 'a list" where
  "mutate_first P f [] = []"
| "mutate_first P f (x # xs) = (if P x then f x # xs else x # mutate_first P f xs)"

text \<open>
  The reactive block \<^verbatim>\<open>$: if (createdEvidence && shallow) { ... }\<close>. It searches
  \<^verbatim>\<open>data.requirements\<close>; \<^verbatim>\<open>.evidences\<close> of the \<^verbatim>\<open>undefined\<close> that \<^verbatim>\<open>find\<close> returns on a
  miss raises, and so does \<^verbatim>\<open>.push\<close> on a record without an evidence array, both before
  anything is written. The last statement is \<^verbatim>\<open>addedEvidence = +1\<close>.
\<close>

definition merge_createdEvidence :: "component \<Rightarrow> component \<times> error option" where
  "merge_createdEvidence c =
     (case createdEvidence c of
        None \<Rightarrow> (c, None)
      | Some ce \<Rightarrow>
          if \<not> shallow c then (c, None)
          else
            (let wanted = (\<lambda>ra. Some (ra_id ra) = at_index (ce_requirements ce) 0)
             in case find wanted (requirements c) of
                  None \<Rightarrow> (c, Some TypeError)
                | Some found \<Rightarrow>
                    (case evidences found of
                       None \<Rightarrow> (c, Some TypeError)
                     | Some evs \<Rightarrow>
                         (c\<lparr>requirements :=
                              mutate_first wanted
                                (\<lambda>ra. ra\<lparr>evidences :=
                                           Some (evs @ [\<lparr>str = ce_name ce, ev_id = ce_id ce\<rparr>])\<rparr>)
                                (requirements c),
                            createdEvidence := None,
                            addedEvidence := 1\<rparr>, None))))"

text \<open>
  \<^verbatim>\<open>$: createdEvidence = form?.createdEvidence\<close> followed by the block above: the arrival
  of a form result.
\<close>

definition receive_form :: "created_evidence option \<Rightarrow> component \<Rightarrow> component \<times> error option" where
  "receive_form created c = merge_createdEvidence (c\<lparr>createdEvidence := created\<rparr>)"

text \<open>
  The \<^verbatim>\<open>forEach\<close> of \<^verbatim>\<open>modalConfirmDelete\<close>, record by record: \<^verbatim>\<open>.filter\<close> on a record
  without an evidence array raises, which leaves the records before it filtered and the
  records from it on as they were.
\<close>

fun forEach_filter ::
  "string \<Rightarrow> requirementAssessment list \<Rightarrow> requirementAssessment list \<times> error option" where
  "forEach_filter evidence_id [] = ([], None)"
| "forEach_filter evidence_id (ra # ras) =
     (case evidences ra of
        None \<Rightarrow> (ra # ras, Some TypeError)
      | Some evs \<Rightarrow>
          (case forEach_filter evidence_id ras of
             (ras', e) \<Rightarrow>
               (ra\<lparr>evidences :=
                     Some (filter (\<lambda>evidence. ev_id evidence \<noteq> evidence_id) evs)\<rparr> # ras', e)))"

text \<open>
  \<^verbatim>\<open>modalConfirmDelete(id, name)\<close>: after the modal has been triggered (the name goes into
  its body only), the \<^verbatim>\<open>forEach\<close> over \<^verbatim>\<open>data.requirements\<close>.
\<close>

definition modalConfirmDelete :: "string \<Rightarrow> string \<Rightarrow> component \<Rightarrow> component \<times> error option" where
  "modalConfirmDelete evidence_id evidence_name c =
     (case forEach_filter evidence_id (requirements c) of
        (reqs', e) \<Rightarrow> (c\<lparr>requirements := reqs'\<rparr>, e))"

subsection \<open>Scenario data\<close>

text \<open>The records of the scenarios the properties below are tried on.\<close>

definition scenario_assessment :: "string \<Rightarrow> evidence list \<Rightarrow> requirementAssessment" where
  "scenario_assessment ident evs =
     \<lparr>ra_id = ident, requirement = ''req-'' @ ident, display_short = Null, name = Null,
      description = Null, assessable = True, status = ''to_do'', result = ''not_assessed'',
      answer = None, observation = Null, observationBuffer = Null, evidences = Some evs\<rparr>"

definition scenario_question :: "string \<Rightarrow> question" where
  "scenario_question u =
     \<lparr>urn = u, q_text = ''?'', q_type = ''unique_choice'', options = [''X'', ''Y''],
      q_answer = Null\<rparr>"

definition scenario_component :: "requirementAssessment list \<Rightarrow> created_evidence option \<Rightarrow> component" where
  "scenario_component reqs created =
     \<lparr>requirements = reqs, requirement_assessments = [], shallow = True,
      createdEvidence = created, addedEvidence = 0\<rparr>"

definition scenario_bundle :: "string list \<Rightarrow> answer_bundle" where
  "scenario_bundle urns = \<lparr>questions = map scenario_question urns\<rparr>"

definition scenario_evidence :: "string \<Rightarrow> evidence" where
  "scenario_evidence ident = \<lparr>str = ''file-'' @ ident, ev_id = ident\<rparr>"

definition scenario_definition :: "string \<Rightarrow> jsval \<Rightarrow> jsval \<Rightarrow> requirementAssessment" where
  "scenario_definition ident short long =
     (scenario_assessment ident [])\<lparr>display_short := short, name := long, evidences := None\<rparr>"

definition scenario_page ::
  "requirementAssessment list \<Rightarrow> requirementAssessment list \<Rightarrow> component" where
  "scenario_page reqs ras =
     \<lparr>requirements = reqs, requirement_assessments = ras, shallow = False,
      createdEvidence = None, addedEvidence = 0\<rparr>"

definition scenario_event :: "string \<Rightarrow> string \<Rightarrow> string list \<Rightarrow> created_evidence" where
  "scenario_event ident nm reqs = \<lparr>ce_id = ident, ce_name = nm, ce_requirements = reqs\<rparr>"

section \<open>Auxiliary facts\<close>

lemma form_id_simps [simp]:
  "form_id (ra\<lparr>status := s\<rparr>) = form_id ra"
  "form_id (ra\<lparr>result := s\<rparr>) = form_id ra"
  "form_id (ra\<lparr>answer := a\<rparr>) = form_id ra"
  "form_id (ra\<lparr>observation := ob\<rparr>) = form_id ra"
  by (simp_all add: form_id_def)

lemma findIndex_lower: "- 1 \<le> findIndex P xs"
  by (induction xs) (auto simp: Let_def)

lemma findIndex_first:
  "i < length xs \<Longrightarrow> P (xs ! i) \<Longrightarrow> (\<forall>j<i. \<not> P (xs ! j)) \<Longrightarrow> findIndex P xs = int i"
proof (induction xs arbitrary: i)
  case Nil
  then show ?case by simp
next
  case (Cons x xs)
  show ?case
  proof (cases i)
    case 0
    with Cons.prems show ?thesis by simp
  next
    case (Suc k)
    with Cons.prems have nx: "\<not> P x" by auto
    from Suc Cons.prems have "k < length xs" "P (xs ! k)" "\<forall>j<k. \<not> P (xs ! j)" by auto
    then have "findIndex P xs = int k" by (rule Cons.IH)
    with nx Suc show ?thesis by (simp add: Let_def)
  qed
qed

lemma findIndex_negative: "(findIndex P xs < 0) = (\<forall>x\<in>set xs. \<not> P x)"
  by (induction xs) (auto simp: Let_def)

lemma findIndex_bound: "findIndex P xs < int (length xs)"
  by (induction xs) (auto simp: Let_def)


lemma fst_post [simp]: "fst (post doc ra field v) = ra"
  by (simp add: post_def split: option.splits)

lemma fst_and_then_id [simp]: "fst (and_then r (\<lambda>x. x)) = fst r"
  by (cases r) (simp add: and_then_def split: sum.splits)

lemma at_index_findIndex:
  assumes "0 \<le> findIndex P xs"
  shows "at_index xs (findIndex P xs) = Some (xs ! nat (findIndex P xs))"
  using assms findIndex_bound [of P xs] by (simp add: at_index_def)

lemma update_question_found:
  assumes "answer ra = Some b" and "findIndex (\<lambda>x. urn x = urn q) (questions b) = int i"
  shows "update doc ra field v (Some q) =
     post doc
       (ra\<lparr>answer := Some (b\<lparr>questions := (questions b)[i := (questions b ! i)\<lparr>q_answer := v\<rparr>]\<rparr>)\<rparr>)
       field
       (Bundle (b\<lparr>questions := (questions b)[i := (questions b ! i)\<lparr>q_answer := v\<rparr>]\<rparr>))"
proof -
  have "at_index (questions b) (int i) = Some (questions b ! i)"
    using at_index_findIndex [of "\<lambda>x. urn x = urn q" "questions b"] assms(2) by simp
  with assms show ?thesis by (simp add: update_def Let_def)
qed

lemma update_question_missing:
  assumes "answer ra = Some b" and "\<forall>x\<in>set (questions b). urn x \<noteq> urn q"
  shows "update doc ra field v (Some q) = (ra, Inl TypeError)"
proof -
  have "findIndex (\<lambda>x. urn x = urn q) (questions b) < 0"
    using assms(2) by (simp add: findIndex_negative)
  then have "at_index (questions b) (findIndex (\<lambda>x. urn x = urn q) (questions b)) = None"
    by (simp add: at_index_def)
  with assms(1) show ?thesis by (simp add: update_def Let_def)
qed

lemma question_click_answer:
  assumes "answer ra = Some b" and "k < length (questions b)"
  shows "\<exists>ra' out b'. question_click doc ra k opt = Some (ra', out) \<and> answer ra' = Some b'
           \<and> length (questions b') = length (questions b)
           \<and> q_answer (questions b' ! k) = nextValue (q_answer (questions b ! k)) (Str opt) Null"
proof -
  define q' where "q' = (questions b ! k)\<lparr>q_answer := nextValue (q_answer (questions b ! k)) (Str opt) Null\<rparr>"
  define b1 where "b1 = b\<lparr>questions := (questions b)[k := q']\<rparr>"
  define ra1 where "ra1 = ra\<lparr>answer := Some b1\<rparr>"
  define P where "P = (\<lambda>x::question. urn x = urn q')"
  have k1: "k < length (questions b1)" and qk: "questions b1 ! k = q'"
    using assms(2) by (simp_all add: b1_def)
  then have "\<not> (\<forall>x\<in>set (questions b1). \<not> P x)"
    unfolding P_def by (metis nth_mem)
  then have nonneg: "0 \<le> findIndex P (questions b1)"
    using findIndex_negative [of P "questions b1"] by auto
  define i where "i = nat (findIndex P (questions b1))"
  have fi: "findIndex (\<lambda>x. urn x = urn q') (questions b1) = int i"
    using nonneg by (simp add: i_def P_def)
  have ilen: "i < length (questions b1)"
    using findIndex_bound [of P "questions b1"] nonneg by (simp add: i_def)
  define b2 where "b2 = b1\<lparr>questions := (questions b1)[i := (questions b1 ! i)\<lparr>q_answer := q_answer q'\<rparr>]\<rparr>"
  have a1: "answer ra1 = Some b1" by (simp add: ra1_def)
  have upd: "update doc ra1 ''answer'' (q_answer q') (Some q') =
        post doc (ra1\<lparr>answer := Some b2\<rparr>) ''answer'' (Bundle b2)"
    using update_question_found [OF a1 fi] by (simp add: b2_def)
  have click: "question_click doc ra k opt =
        Some (and_then (update doc ra1 ''answer'' (q_answer q') (Some q')) (\<lambda>r. r))"
    using assms by (simp add: question_click_def at_index_def Let_def q'_def b1_def ra1_def)
  obtain ra' out where ro: "and_then (update doc ra1 ''answer'' (q_answer q') (Some q')) (\<lambda>r. r) = (ra', out)"
    by (cases "and_then (update doc ra1 ''answer'' (q_answer q') (Some q')) (\<lambda>r. r)") auto
  have "ra' = fst (and_then (update doc ra1 ''answer'' (q_answer q') (Some q')) (\<lambda>r. r))"
    using ro by simp
  then have ra': "ra' = ra1\<lparr>answer := Some b2\<rparr>" using upd by simp
  have "q_answer (questions b2 ! k) = q_answer q'"
    using k1 qk ilen by (cases "i = k") (simp_all add: b2_def)
  moreover have "length (questions b2) = length (questions b)" by (simp add: b2_def b1_def)
  moreover have "q_answer q' = nextValue (q_answer (questions b ! k)) (Str opt) Null"
    by (simp add: q'_def)
  ultimately show ?thesis using click ro ra' by simp
qed

lemma fromEntries_None: "(fromEntries es k = None) = (k \<notin> fst ` set es)"
  by (induction es) (auto split: option.splits)

lemma fromEntries_Some: "fromEntries es k = Some v \<Longrightarrow> (k, v) \<in> set es"
  by (induction es) (auto split: option.splits if_splits)

lemma requirementHashmap_Stored:
  "requirementHashmap reqs k = Some (Stored d) \<Longrightarrow> d \<in> set reqs \<and> ra_id d = k"
  by (auto simp: requirementHashmap_def get_property_def split: option.splits
      dest!: fromEntries_Some)

lemma requirementHashmap_key:
  "k \<in> ra_id ` set reqs \<Longrightarrow> \<exists>d. requirementHashmap reqs k = Some (Stored d)"
proof -
  assume "k \<in> ra_id ` set reqs"
  then have "fromEntries (map (\<lambda>r. (ra_id r, r)) reqs) k \<noteq> None"
    by (simp add: fromEntries_None image_image)
  then show ?thesis by (auto simp: requirementHashmap_def get_property_def)
qed

lemma requirementHashmap_no_key:
  "k \<notin> ra_id ` set reqs \<Longrightarrow>
   requirementHashmap reqs k = map_option Inherited (map_of object_prototype k)"
proof -
  assume "k \<notin> ra_id ` set reqs"
  then have "fromEntries (map (\<lambda>r. (ra_id r, r)) reqs) k = None"
    by (simp add: fromEntries_None image_image)
  then show ?thesis by (simp add: requirementHashmap_def get_property_def)
qed

lemma rendered_forms_present:
  assumes "ra \<in> set ras" and "assessable ra"
  shows "rendered_forms actionPath ras (form_id ra) = Some (actionPath @ ''?/updateRequirementAssessment'')"
proof -
  have "find (\<lambda>x. assessable x \<and> form_id x = form_id ra) ras \<noteq> None"
    using assms by (auto simp: find_None_iff)
  then show ?thesis by (auto simp: rendered_forms_def split: option.splits)
qed

lemma mutate_first_length [simp]: "length (mutate_first P f xs) = length xs"
  by (induction xs) auto

lemma merge_createdEvidence_miss:
  assumes "createdEvidence c = Some ce" and "shallow c"
    and "\<forall>ra\<in>set (requirements c). Some (ra_id ra) \<noteq> at_index (ce_requirements ce) 0"
  shows "merge_createdEvidence c = (c, Some TypeError)"
proof -
  have "find (\<lambda>ra. Some (ra_id ra) = at_index (ce_requirements ce) 0) (requirements c) = None"
    using assms(3) by (simp add: find_None_iff)
  with assms(1,2) show ?thesis by (simp add: merge_createdEvidence_def)
qed

lemma merge_createdEvidence_counter:
  "addedEvidence (fst (merge_createdEvidence c)) = addedEvidence c
   \<or> addedEvidence (fst (merge_createdEvidence c)) = 1"
  by (simp add: merge_createdEvidence_def Let_def split: option.splits)

text \<open>
  Both evidence operations work on \<^verbatim>\<open>data.requirements\<close>; the collection that the template
  iterates, \<^verbatim>\<open>data.requirement_assessments\<close>, is not an operand of either.
\<close>

lemma requirement_assessments_untouched:
  "requirement_assessments (fst (modalConfirmDelete e nm c)) = requirement_assessments c"
  "requirement_assessments (fst (merge_createdEvidence c)) = requirement_assessments c"
  by (simp_all add: modalConfirmDelete_def merge_createdEvidence_def Let_def
      split: option.splits prod.splits)

text \<open>On records that all carry an evidence array the \<^verbatim>\<open>forEach\<close> is a map of filters.\<close>

lemma forEach_filter_arrays:
  assumes "\<forall>ra\<in>set ras. evidences ra \<noteq> None"
  shows "forEach_filter e ras =
     (map (\<lambda>ra. ra\<lparr>evidences := map_option (filter (\<lambda>ev. ev_id ev \<noteq> e)) (evidences ra)\<rparr>) ras,
      None)"
  using assms by (induction ras) auto

text \<open>An identifier that is no key of the index but an inherited name yields that value's name.\<close>

lemma title_inherited:
  assumes "requirement ra \<notin> ra_id ` set reqs"
    and "map_of object_prototype (requirement ra) = Some n"
  shows "title reqs ra = or_empty n"
  using assms
  by (simp add: title_def requirementHashmap_no_key display_short_of_def name_of_def truthy_def)

section \<open>The claims\<close>

text \<open>
  C1 (as amended). \<^verbatim>\<open>update\<close> called without a question does not write to the assessment: it
  returns it as it was and dispatches one POST whose body is \<^verbatim>\<open>{id, [field]: value}\<close>. The
  assignment of the field is made by the caller: the status and result click handlers
  assign the new value first and call \<^verbatim>\<open>update\<close> afterwards, so that when the handler has
  returned the field holds the new value, the request carries the same value, and the field
  is assigned whether or not the dispatch succeeds.
\<close>

theorem update_without_question:
  assumes "doc (form_id ra) = Some action"
  shows "fst (update doc ra field v None) = ra
    \<and> snd (update doc ra field v None) =
        Inr \<lparr>url = action, http_method = ''POST'',
              body = assign field (Scalar v) [(''id'', Scalar (Str (ra_id ra)))]\<rparr>
    \<and> status_click doc ra opt =
        (ra\<lparr>status := nextValue (status ra) opt ''to_do''\<rparr>,
         Inr [\<lparr>url = action, http_method = ''POST'',
                body = [(''id'', Scalar (Str (ra_id ra))),
                        (''status'', Scalar (Str (nextValue (status ra) opt ''to_do'')))]\<rparr>])
    \<and> result_click doc ra opt =
        (ra\<lparr>result := nextValue (result ra) opt ''not_assessed''\<rparr>,
         Inr [\<lparr>url = action, http_method = ''POST'',
                body = [(''id'', Scalar (Str (ra_id ra))),
                        (''result'', Scalar (Str (nextValue (result ra) opt ''not_assessed'')))]\<rparr>])
    \<and> status (fst (status_click other_doc ra opt)) = nextValue (status ra) opt ''to_do''
    \<and> result (fst (result_click other_doc ra opt)) = nextValue (result ra) opt ''not_assessed''"
  using assms
  by (simp add: update_def post_def status_click_def result_click_def and_then_def Let_def
      split: option.splits)

text \<open>The theorem of C1 at an assessment whose form is rendered.\<close>

theorem update_without_question_witness:
  "fst (update (rendered_forms ''/a'' [scenario_assessment ''r1'' []]) (scenario_assessment ''r1'' [])
          ''observation'' (Str ''seen'') None) = scenario_assessment ''r1'' []
   \<and> status_click (rendered_forms ''/a'' [scenario_assessment ''r1'' []])
        (scenario_assessment ''r1'' []) ''done'' =
       ((scenario_assessment ''r1'' [])\<lparr>status := ''done''\<rparr>,
        Inr [\<lparr>url = ''/a?/updateRequirementAssessment'', http_method = ''POST'',
               body = [(''id'', Scalar (Str ''r1'')), (''status'', Scalar (Str ''done''))]\<rparr>])"
proof -
  have h: "rendered_forms ''/a'' [scenario_assessment ''r1'' []] (form_id (scenario_assessment ''r1'' []))
             = Some ''/a?/updateRequirementAssessment''"
    by (simp add: rendered_forms_def form_id_def scenario_assessment_def)
  show ?thesis
    using update_without_question [where doc = "rendered_forms ''/a'' [scenario_assessment ''r1'' []]"
        and ra = "scenario_assessment ''r1'' []" and field = "''observation''"
        and v = "Str ''seen''" and opt = "''done''", OF h]
    by (simp add: scenario_assessment_def nextValue_def)
qed

text \<open>
  C1 as stated fails: after \<^verbatim>\<open>update(a, 'status', 'done')\<close> on an assessment whose status is
  \<^verbatim>\<open>to_do\<close> the status is still \<^verbatim>\<open>to_do\<close>, although the request has been dispatched.
\<close>

theorem update_without_question_counterexample:
  "status (fst (update (rendered_forms ''/a'' [scenario_assessment ''r1'' []])
                  (scenario_assessment ''r1'' []) ''status'' (Str ''done'') None)) \<noteq> ''done''
   \<and> snd (update (rendered_forms ''/a'' [scenario_assessment ''r1'' []])
            (scenario_assessment ''r1'' []) ''status'' (Str ''done'') None) =
       Inr \<lparr>url = ''/a?/updateRequirementAssessment'', http_method = ''POST'',
             body = [(''id'', Scalar (Str ''r1'')), (''status'', Scalar (Str ''done''))]\<rparr>"
  by (simp add: update_def post_def rendered_forms_def form_id_def scenario_assessment_def)

text \<open>
  C3 (as amended). The reducer returns the default when the clicked value is the current one
  and the clicked value otherwise; so its result is the default exactly when the clicked value
  is the current one or is the default itself. Applied twice with the same clicked value it
  gives the clicked value back when that value was the current one and is not the default,
  and the default in every other case. The status handler uses it with \<^verbatim>\<open>to_do\<close>, the result
  handler with \<^verbatim>\<open>not_assessed\<close>, the single-choice handler with \<^verbatim>\<open>null\<close>; being a function
  of its three arguments, it has no effect of its own.
\<close>

theorem nextValue_toggle:
  "nextValue current clicked d = (if clicked = current then d else clicked)
   \<and> (nextValue current clicked d = d) = (clicked = current \<or> clicked = d)
   \<and> nextValue (nextValue current clicked d) clicked d =
       (if clicked = current \<and> clicked \<noteq> d then clicked else d)
   \<and> status (fst (status_click doc ra opt)) = nextValue (status ra) opt ''to_do''
   \<and> result (fst (result_click doc ra opt)) = nextValue (result ra) opt ''not_assessed''
   \<and> (\<forall>b. answer ra = Some b \<and> k < length (questions b) \<longrightarrow>
         (\<exists>ra' out b'. question_click doc ra k opt = Some (ra', out) \<and> answer ra' = Some b'
            \<and> length (questions b') = length (questions b)
            \<and> q_answer (questions b' ! k) =
                nextValue (q_answer (questions b ! k)) (Str opt) Null))"
proof -
  have a: "nextValue current clicked d = (if clicked = current then d else clicked)"
    by (auto simp: nextValue_def)
  have b: "(nextValue current clicked d = d) = (clicked = current \<or> clicked = d)"
    by (auto simp: nextValue_def)
  have c: "nextValue (nextValue current clicked d) clicked d =
       (if clicked = current \<and> clicked \<noteq> d then clicked else d)"
    by (auto simp: nextValue_def)
  have s: "status (fst (status_click doc ra opt)) = nextValue (status ra) opt ''to_do''"
    by (simp add: status_click_def update_def Let_def)
  have r: "result (fst (result_click doc ra opt)) = nextValue (result ra) opt ''not_assessed''"
    by (simp add: result_click_def update_def Let_def)
  show ?thesis using a b c s r question_click_answer by blast
qed

text \<open>The theorem of C3 at a status click and at a click on the second question of a bundle.\<close>

theorem nextValue_toggle_witness:
  "nextValue ''done'' ''in_review'' ''to_do'' = ''in_review''
   \<and> nextValue ''done'' ''done'' ''to_do'' = ''to_do''
   \<and> nextValue (nextValue ''done'' ''in_review'' ''to_do'') ''in_review'' ''to_do'' = ''to_do''
   \<and> nextValue (nextValue ''done'' ''done'' ''to_do'') ''done'' ''to_do'' = ''done''
   \<and> (\<exists>ra' out b'.
        question_click (rendered_forms ''/a'' [])
          ((scenario_assessment ''r1'' [])\<lparr>answer := Some (scenario_bundle [''u1'', ''u2''])\<rparr>)
          1 ''X'' = Some (ra', out)
        \<and> answer ra' = Some b' \<and> q_answer (questions b' ! 1) = Str ''X'')"
proof -
  let ?ra = "(scenario_assessment ''r1'' [])\<lparr>answer := Some (scenario_bundle [''u1'', ''u2''])\<rparr>"
  have h: "answer ?ra = Some (scenario_bundle [''u1'', ''u2''])
      \<and> 1 < length (questions (scenario_bundle [''u1'', ''u2'']))"
    by (simp add: scenario_bundle_def)
  have q: "nextValue (q_answer (questions (scenario_bundle [''u1'', ''u2'']) ! 1)) (Str ''X'') Null = Str ''X''"
    by (simp add: scenario_bundle_def scenario_question_def nextValue_def)
  note t = nextValue_toggle [where current = "''done''" and clicked = "''in_review''" and d = "''to_do''"
      and ra = ?ra and k = 1 and opt = "''X''" and doc = "rendered_forms ''/a'' []"]
  note tq = t [THEN conjunct2, THEN conjunct2, THEN conjunct2, THEN conjunct2, THEN conjunct2,
      THEN spec, THEN mp, OF h]
  from tq obtain ra' out b' where
    "question_click (rendered_forms ''/a'' []) ?ra 1 ''X'' = Some (ra', out)"
    "answer ra' = Some b'"
    "q_answer (questions b' ! 1) =
       nextValue (q_answer (questions (scenario_bundle [''u1'', ''u2'']) ! 1)) (Str ''X'') Null"
    by blast
  with q have "\<exists>ra' out b'.
        question_click (rendered_forms ''/a'' []) ?ra 1 ''X'' = Some (ra', out)
        \<and> answer ra' = Some b' \<and> q_answer (questions b' ! 1) = Str ''X''"
    by auto
  then show ?thesis by (simp add: nextValue_def)
qed

text \<open>
  C3 as stated fails twice: clicking \<^verbatim>\<open>to_do\<close> while the status is \<^verbatim>\<open>done\<close> returns the
  default although the clicked value is not the current one; and clicking \<^verbatim>\<open>done\<close> twice,
  starting from \<^verbatim>\<open>done\<close>, ends at \<^verbatim>\<open>done\<close>, not at the default.
\<close>

theorem nextValue_toggle_counterexample:
  "\<not> ((nextValue ''done'' ''to_do'' ''to_do'' = ''to_do'') = (''to_do'' = ''done''))
   \<and> nextValue (nextValue ''done'' ''done'' ''to_do'') ''done'' ''to_do'' \<noteq> ''to_do''"
  by (simp add: nextValue_def)

text \<open>
  C6, evaluated. The page shows the assessments \<^verbatim>\<open>r1\<close> with the evidence \<^verbatim>\<open>e1, e2\<close> and
  \<^verbatim>\<open>r2\<close> with \<^verbatim>\<open>e1\<close>, and \<^verbatim>\<open>e1\<close> is removed. The \<^verbatim>\<open>forEach\<close> runs over
  \<^verbatim>\<open>data.requirements\<close>, not over the assessments: with definitions that carry no evidence
  array it raises a \<^verbatim>\<open>TypeError\<close> on the first of them; with a definition that carries
  one, that array is filtered. In both cases every assessment keeps \<^verbatim>\<open>e1\<close>.
\<close>

theorem modalConfirmDelete_leaves_assessments:
  "modalConfirmDelete ''e1'' ''file-e1''
     (scenario_page
        [scenario_definition ''req-r1'' (Str ''A.1'') Null,
         scenario_definition ''req-r2'' (Str ''A.2'') Null]
        [scenario_assessment ''r1'' [scenario_evidence ''e1'', scenario_evidence ''e2''],
         scenario_assessment ''r2'' [scenario_evidence ''e1'']]) =
   (scenario_page
      [scenario_definition ''req-r1'' (Str ''A.1'') Null,
       scenario_definition ''req-r2'' (Str ''A.2'') Null]
      [scenario_assessment ''r1'' [scenario_evidence ''e1'', scenario_evidence ''e2''],
       scenario_assessment ''r2'' [scenario_evidence ''e1'']],
    Some TypeError)
   \<and> modalConfirmDelete ''e1'' ''file-e1''
       (scenario_page
          [scenario_assessment ''req-r1'' [scenario_evidence ''e1'']]
          [scenario_assessment ''r1'' [scenario_evidence ''e1'', scenario_evidence ''e2''],
           scenario_assessment ''r2'' [scenario_evidence ''e1'']]) =
     (scenario_page
        [scenario_assessment ''req-r1'' []]
        [scenario_assessment ''r1'' [scenario_evidence ''e1'', scenario_evidence ''e2''],
         scenario_assessment ''r2'' [scenario_evidence ''e1'']],
      None)"
  by (simp add: modalConfirmDelete_def scenario_page_def scenario_definition_def
      scenario_assessment_def scenario_evidence_def)

text \<open>
  C7 (as amended). When \<open>i\<close> is the first index of the bundle whose question has the
  \<^verbatim>\<open>urn\<close> of \<^verbatim>\<open>q\<close>, \<^verbatim>\<open>update(a, 'answer', v, q)\<close> sets the answer of question \<open>i\<close> to
  \<open>v\<close>, leaves every other question and every other field of the assessment as they were,
  and dispatches a request whose \<^verbatim>\<open>answer\<close> field is the whole bundle after the write.
\<close>

theorem update_question_first_match:
  assumes "answer ra = Some b" and "i < length (questions b)"
    and "urn (questions b ! i) = urn q" and "\<forall>j<i. urn (questions b ! j) \<noteq> urn q"
    and "doc (form_id ra) = Some action"
  shows "\<exists>b'. update doc ra ''answer'' v (Some q) =
            (ra\<lparr>answer := Some b'\<rparr>,
             Inr \<lparr>url = action, http_method = ''POST'',
                   body = [(''id'', Scalar (Str (ra_id ra))), (''answer'', Bundle b')]\<rparr>)
          \<and> length (questions b') = length (questions b)
          \<and> questions b' ! i = (questions b ! i)\<lparr>q_answer := v\<rparr>
          \<and> (\<forall>j<length (questions b). j \<noteq> i \<longrightarrow> questions b' ! j = questions b ! j)"
proof -
  have fi: "findIndex (\<lambda>x. urn x = urn q) (questions b) = int i"
    using assms(2-4) by (intro findIndex_first) auto
  let ?b' = "b\<lparr>questions := (questions b)[i := (questions b ! i)\<lparr>q_answer := v\<rparr>]\<rparr>"
  have "update doc ra ''answer'' v (Some q) =
          post doc (ra\<lparr>answer := Some ?b'\<rparr>) ''answer'' (Bundle ?b')"
    using update_question_found [OF assms(1) fi] by simp
  also have "\<dots> = (ra\<lparr>answer := Some ?b'\<rparr>,
             Inr \<lparr>url = action, http_method = ''POST'',
                   body = [(''id'', Scalar (Str (ra_id ra))), (''answer'', Bundle ?b')]\<rparr>)"
    using assms(5) by (simp add: post_def)
  finally have u: "update doc ra ''answer'' v (Some q) =
            (ra\<lparr>answer := Some ?b'\<rparr>,
             Inr \<lparr>url = action, http_method = ''POST'',
                   body = [(''id'', Scalar (Str (ra_id ra))), (''answer'', Bundle ?b')]\<rparr>)" .
  have "length (questions ?b') = length (questions b)" by simp
  moreover have "questions ?b' ! i = (questions b ! i)\<lparr>q_answer := v\<rparr>"
    using assms(2) by simp
  moreover have "\<forall>j<length (questions b). j \<noteq> i \<longrightarrow> questions ?b' ! j = questions b ! j"
    by simp
  ultimately show ?thesis using u by blast
qed

text \<open>The theorem of C7 on a bundle of three questions, for the third one.\<close>

theorem update_question_first_match_witness:
  "update (rendered_forms ''/a'' [scenario_assessment ''r1'' []])
     ((scenario_assessment ''r1'' [])\<lparr>answer := Some (scenario_bundle [''u0'', ''u1'', ''u2''])\<rparr>)
     ''answer'' (Str ''X'') (Some (scenario_question ''u2'')) =
   ((scenario_assessment ''r1'' [])
      \<lparr>answer := Some \<lparr>questions = [scenario_question ''u0'', scenario_question ''u1'',
                                      (scenario_question ''u2'')\<lparr>q_answer := Str ''X''\<rparr>]\<rparr>\<rparr>,
    Inr \<lparr>url = ''/a?/updateRequirementAssessment'', http_method = ''POST'',
          body = [(''id'', Scalar (Str ''r1'')),
                  (''answer'',
                   Bundle \<lparr>questions = [scenario_question ''u0'', scenario_question ''u1'',
                                        (scenario_question ''u2'')\<lparr>q_answer := Str ''X''\<rparr>]\<rparr>)]\<rparr>)"
proof -
  let ?b = "scenario_bundle [''u0'', ''u1'', ''u2'']"
  let ?ra = "(scenario_assessment ''r1'' [])\<lparr>answer := Some ?b\<rparr>"
  let ?doc = "rendered_forms ''/a'' [scenario_assessment ''r1'' []]"
  have h1: "answer ?ra = Some ?b" by simp
  have h2: "2 < length (questions ?b)" by (simp add: scenario_bundle_def)
  have h3: "urn (questions ?b ! 2) = urn (scenario_question ''u2'')"
    by (simp add: scenario_bundle_def)
  have h4: "\<forall>j<2. urn (questions ?b ! j) \<noteq> urn (scenario_question ''u2'')"
    by (simp add: scenario_bundle_def scenario_question_def less_Suc_eq numeral_2_eq_2)
  have h5: "?doc (form_id ?ra) = Some ''/a?/updateRequirementAssessment''"
    by (simp add: rendered_forms_def form_id_def scenario_assessment_def)
  from update_question_first_match [where ra = ?ra and b = ?b and i = 2
      and q = "scenario_question ''u2''" and doc = ?doc and v = "Str ''X''", OF h1 h2 h3 h4 h5]
  obtain b' where
    u: "update ?doc ?ra ''answer'' (Str ''X'') (Some (scenario_question ''u2'')) =
          (?ra\<lparr>answer := Some b'\<rparr>,
           Inr \<lparr>url = ''/a?/updateRequirementAssessment'', http_method = ''POST'',
                 body = [(''id'', Scalar (Str (ra_id ?ra))), (''answer'', Bundle b')]\<rparr>)"
    and len: "length (questions b') = length (questions ?b)"
    and at: "questions b' ! 2 = (questions ?b ! 2)\<lparr>q_answer := Str ''X''\<rparr>"
    and others: "\<forall>j<length (questions ?b). j \<noteq> 2 \<longrightarrow> questions b' ! j = questions ?b ! j"
    by blast
  from len obtain x y z where xyz: "questions b' = [x, y, z]"
    by (auto simp: scenario_bundle_def length_Suc_conv numeral_3_eq_3)
  from others have "questions b' ! 0 = questions ?b ! 0" "questions b' ! 1 = questions ?b ! 1"
    by (simp_all add: scenario_bundle_def)
  with at xyz have "questions b' = [scenario_question ''u0'', scenario_question ''u1'',
                                      (scenario_question ''u2'')\<lparr>q_answer := Str ''X''\<rparr>]"
    by (simp add: scenario_bundle_def)
  then have "b' = \<lparr>questions = [scenario_question ''u0'', scenario_question ''u1'',
                                      (scenario_question ''u2'')\<lparr>q_answer := Str ''X''\<rparr>]\<rparr>"
    by (cases b') simp
  with u show ?thesis by (simp add: scenario_assessment_def)
qed

text \<open>
  C7 as stated fails when two questions share a \<^verbatim>\<open>urn\<close>: the question at index 1 has the
  \<^verbatim>\<open>urn\<close> of \<^verbatim>\<open>q\<close>, but the write goes to index 0 and index 1 keeps its answer.
\<close>

theorem update_question_counterexample:
  "urn (questions (scenario_bundle [''u'', ''u'']) ! 1) = urn (scenario_question ''u'')
   \<and> update (rendered_forms ''/a'' [scenario_assessment ''r1'' []])
       ((scenario_assessment ''r1'' [])\<lparr>answer := Some (scenario_bundle [''u'', ''u''])\<rparr>)
       ''answer'' (Str ''X'') (Some (scenario_question ''u'')) =
     ((scenario_assessment ''r1'' [])
        \<lparr>answer := Some \<lparr>questions = [(scenario_question ''u'')\<lparr>q_answer := Str ''X''\<rparr>,
                                        scenario_question ''u'']\<rparr>\<rparr>,
      Inr \<lparr>url = ''/a?/updateRequirementAssessment'', http_method = ''POST'',
            body = [(''id'', Scalar (Str ''r1'')),
                    (''answer'',
                     Bundle \<lparr>questions = [(scenario_question ''u'')\<lparr>q_answer := Str ''X''\<rparr>,
                                          scenario_question ''u'']\<rparr>)]\<rparr>)
   \<and> q_answer (scenario_question ''u'') \<noteq> Str ''X''"
  by (simp add: update_def post_def at_index_def rendered_forms_def form_id_def
      scenario_assessment_def scenario_bundle_def scenario_question_def Let_def)

text \<open>
  C8 (as amended). \<^verbatim>\<open>title\<close> is a total function to strings. For an assessment whose
  requirement identifier is a key of the record index, or is not the name of a property
  inherited from \<^verbatim>\<open>Object.prototype\<close>, the source is the definition that the index holds for
  the identifier (an element of \<^verbatim>\<open>data.requirements\<close> with that identifier), and the
  assessment itself when the index has no such key. The title is the source's short display
  name when that is set, where set means a string other than the empty one; otherwise its
  long name when that is a string; otherwise the empty string.
\<close>

theorem title_derivation:
  assumes "src = (case requirementHashmap reqs (requirement ra) of
                    Some (Stored d) \<Rightarrow> d | _ \<Rightarrow> ra)"
    and "requirement ra \<in> ra_id ` set reqs \<or> requirement ra \<notin> fst ` set object_prototype"
  shows "(requirementHashmap reqs (requirement ra) = None) = (requirement ra \<notin> ra_id ` set reqs)
    \<and> (\<forall>x. requirementHashmap reqs (requirement ra) = Some x \<longrightarrow>
          (\<exists>d. x = Stored d \<and> d \<in> set reqs \<and> ra_id d = requirement ra))
    \<and> (\<forall>s. display_short src = Str s \<and> s \<noteq> [] \<longrightarrow> title reqs ra = s)
    \<and> (\<forall>n. (display_short src = Undefined \<or> display_short src = Null \<or> display_short src = Str [])
            \<and> name src = Str n \<longrightarrow>
          title reqs ra = n)
    \<and> ((display_short src = Undefined \<or> display_short src = Null \<or> display_short src = Str [])
        \<and> (name src = Undefined \<or> name src = Null) \<longrightarrow>
          title reqs ra = [])"
proof -
  have look: "(requirementHashmap reqs (requirement ra) = None \<and> requirement ra \<notin> ra_id ` set reqs)
      \<or> (\<exists>d. requirementHashmap reqs (requirement ra) = Some (Stored d) \<and> d \<in> set reqs
              \<and> ra_id d = requirement ra \<and> requirement ra \<in> ra_id ` set reqs)"
  proof (cases "requirement ra \<in> ra_id ` set reqs")
    case True
    then obtain d where "requirementHashmap reqs (requirement ra) = Some (Stored d)"
      using requirementHashmap_key by blast
    with True show ?thesis using requirementHashmap_Stored by blast
  next
    case False
    with assms(2) have "map_of object_prototype (requirement ra) = None"
      by (simp add: map_of_eq_None_iff)
    with False show ?thesis by (simp add: requirementHashmap_no_key)
  qed
  have g: "(case requirementHashmap reqs (requirement ra) of
              Some r \<Rightarrow> r | None \<Rightarrow> Stored ra) = Stored src"
    using look assms(1) by auto
  have t: "title reqs ra =
      (if truthy (display_short src) then or_empty (display_short src) else or_empty (name src))"
    by (simp add: title_def g display_short_of_def name_of_def)
  have "\<forall>s. display_short src = Str s \<and> s \<noteq> [] \<longrightarrow> title reqs ra = s"
    using t by (simp add: truthy_def or_empty_def)
  moreover have "\<forall>n. (display_short src = Undefined \<or> display_short src = Null \<or> display_short src = Str [])
            \<and> name src = Str n \<longrightarrow> title reqs ra = n"
    using t by (auto simp: truthy_def or_empty_def)
  moreover have "(display_short src = Undefined \<or> display_short src = Null \<or> display_short src = Str [])
        \<and> (name src = Undefined \<or> name src = Null) \<longrightarrow> title reqs ra = []"
    using t by (auto simp: truthy_def or_empty_def)
  moreover have "(requirementHashmap reqs (requirement ra) = None) = (requirement ra \<notin> ra_id ` set reqs)"
    using look by auto
  moreover have "\<forall>x. requirementHashmap reqs (requirement ra) = Some x \<longrightarrow>
          (\<exists>d. x = Stored d \<and> d \<in> set reqs \<and> ra_id d = requirement ra)"
    using look by auto
  ultimately show ?thesis by blast
qed

text \<open>
  The theorem of C8 on a definition with a short and a long name, with a long name only, with
  neither, and on an assessment that the index does not resolve.
\<close>

theorem title_derivation_witness:
  "title [scenario_definition ''req-r1'' (Str ''A.1'') (Str ''Access control'')]
     (scenario_assessment ''r1'' []) = ''A.1''
   \<and> title [scenario_definition ''req-r1'' Null (Str ''Access control'')]
       (scenario_assessment ''r1'' []) = ''Access control''
   \<and> title [scenario_definition ''req-r1'' Null Undefined] (scenario_assessment ''r1'' []) = []
   \<and> title [] (scenario_definition ''r1'' (Str ''A.2'') Null) = ''A.2''"
proof -
  let ?ra = "scenario_assessment ''r1'' []"
  let ?d1 = "scenario_definition ''req-r1'' (Str ''A.1'') (Str ''Access control'')"
  let ?d2 = "scenario_definition ''req-r1'' Null (Str ''Access control'')"
  let ?d3 = "scenario_definition ''req-r1'' Null Undefined"
  let ?a4 = "scenario_definition ''r1'' (Str ''A.2'') Null"
  have l1: "?d1 = (case requirementHashmap [?d1] (requirement ?ra) of Some (Stored d) \<Rightarrow> d | _ \<Rightarrow> ?ra)"
    and l2: "?d2 = (case requirementHashmap [?d2] (requirement ?ra) of Some (Stored d) \<Rightarrow> d | _ \<Rightarrow> ?ra)"
    and l3: "?d3 = (case requirementHashmap [?d3] (requirement ?ra) of Some (Stored d) \<Rightarrow> d | _ \<Rightarrow> ?ra)"
    and l4: "?a4 = (case requirementHashmap [] (requirement ?a4) of Some (Stored d) \<Rightarrow> d | _ \<Rightarrow> ?a4)"
    by (simp_all add: requirementHashmap_def get_property_def object_prototype_def
        scenario_definition_def scenario_assessment_def)
  have k: "requirement ?ra \<notin> fst ` set object_prototype"
    and k4: "requirement ?a4 \<notin> fst ` set object_prototype"
    by (simp_all add: object_prototype_def scenario_definition_def scenario_assessment_def)
  from k have k1: "requirement ?ra \<in> ra_id ` set [?d1] \<or> requirement ?ra \<notin> fst ` set object_prototype"
    and k2: "requirement ?ra \<in> ra_id ` set [?d2] \<or> requirement ?ra \<notin> fst ` set object_prototype"
    and k3: "requirement ?ra \<in> ra_id ` set [?d3] \<or> requirement ?ra \<notin> fst ` set object_prototype"
    by blast+
  from k4 have k4': "requirement ?a4 \<in> ra_id ` set [] \<or> requirement ?a4 \<notin> fst ` set object_prototype"
    by blast
  have "title [?d1] ?ra = ''A.1''"
    using title_derivation [OF l1 k1, THEN conjunct2, THEN conjunct2, THEN conjunct1, THEN spec,
        of "''A.1''"]
    by (simp add: scenario_definition_def)
  moreover have "title [?d2] ?ra = ''Access control''"
    using title_derivation [OF l2 k2, THEN conjunct2, THEN conjunct2, THEN conjunct2, THEN conjunct1,
        THEN spec, of "''Access control''"]
    by (simp add: scenario_definition_def)
  moreover have "title [?d3] ?ra = []"
    using title_derivation [OF l3 k3, THEN conjunct2, THEN conjunct2, THEN conjunct2, THEN conjunct2]
    by (simp add: scenario_definition_def)
  moreover have "title [] ?a4 = ''A.2''"
    using title_derivation [OF l4 k4', THEN conjunct2, THEN conjunct2, THEN conjunct1, THEN spec,
        of "''A.2''"]
    by (simp add: scenario_definition_def)
  ultimately show ?thesis by blast
qed

text \<open>
  C8 as stated fails on an identifier that a plain object inherits: no definition has the
  identifier \<^verbatim>\<open>constructor\<close>, yet the lookup yields the function \<^verbatim>\<open>Object\<close>, the assessment
  is not taken as the source, and the title is \<^verbatim>\<open>Object\<close> instead of the assessment's short
  name \<^verbatim>\<open>A.2\<close>.
\<close>

theorem title_derivation_counterexample:
  "''constructor'' \<notin> ra_id ` set []
   \<and> display_short ((scenario_definition ''r1'' (Str ''A.2'') Null)\<lparr>requirement := ''constructor''\<rparr>)
       = Str ''A.2''
   \<and> title [] ((scenario_definition ''r1'' (Str ''A.2'') Null)\<lparr>requirement := ''constructor''\<rparr>)
       = ''Object''"
  by (simp add: title_def get_property_def requirementHashmap_def object_prototype_def
      display_short_of_def name_of_def truthy_def or_empty_def scenario_definition_def)

text \<open>
  C9 (as amended). The save and cancel buttons of an assessment are shown exactly when the
  assessment is assessable, the page is not shallow and \<^verbatim>\<open>observationBuffer !== observation\<close>
  (strictly, so that \<^verbatim>\<open>null\<close> and \<^verbatim>\<open>undefined\<close> differ): the difference of the two fields is
  necessary for the buttons, and inside the editable form of an assessable assessment it is
  their only condition. When the buttons of a rendered assessment are shown, the save button
  persists the observation and then copies it into the buffer, changing nothing else; the
  cancel button copies the buffer into the observation, changing nothing else and sending
  nothing; after either the two fields are equal and the buttons are no longer shown.
\<close>

theorem observation_buffer_sync:
  assumes "ra \<in> set ras" and "renders_observation_buttons is_shallow ra"
  shows "observationBuffer ra \<noteq> observation ra
    \<and> observation_save (rendered_forms actionPath ras) ra =
        (ra\<lparr>observationBuffer := observation ra\<rparr>,
         Inr [\<lparr>url = actionPath @ ''?/updateRequirementAssessment'', http_method = ''POST'',
                body = [(''id'', Scalar (Str (ra_id ra))),
                        (''observation'', Scalar (observation ra))]\<rparr>])
    \<and> observationBuffer (fst (observation_save (rendered_forms actionPath ras) ra)) =
        observation (fst (observation_save (rendered_forms actionPath ras) ra))
    \<and> snd (observation_cancel ra) = Inr []
    \<and> observation (fst (observation_cancel ra)) = observationBuffer ra
    \<and> observationBuffer (fst (observation_cancel ra)) = observationBuffer ra
    \<and> (fst (observation_cancel ra))\<lparr>observation := observation ra\<rparr> = ra
    \<and> \<not> renders_observation_buttons is_shallow (fst (observation_save (rendered_forms actionPath ras) ra))
    \<and> \<not> renders_observation_buttons is_shallow (fst (observation_cancel ra))
    \<and> (\<forall>any_shallow other.
          renders_observation_buttons any_shallow other =
            (assessable other \<and> \<not> any_shallow \<and> observationBuffer other \<noteq> observation other))"
proof -
  from assms(2) have a: "assessable ra" and ns: "\<not> is_shallow"
    and d: "observationBuffer ra \<noteq> observation ra"
    by (simp_all add: renders_observation_buttons_def)
  have f: "rendered_forms actionPath ras (form_id ra) = Some (actionPath @ ''?/updateRequirementAssessment'')"
    using assms(1) a by (rule rendered_forms_present)
  have s: "observation_save (rendered_forms actionPath ras) ra =
        (ra\<lparr>observationBuffer := observation ra\<rparr>,
         Inr [\<lparr>url = actionPath @ ''?/updateRequirementAssessment'', http_method = ''POST'',
                body = [(''id'', Scalar (Str (ra_id ra))),
                        (''observation'', Scalar (observation ra))]\<rparr>])"
    using f by (simp add: observation_save_def update_def post_def and_then_def)
  have c: "observation_cancel ra = (ra\<lparr>observation := observationBuffer ra\<rparr>, Inr [])"
    by (simp add: observation_cancel_def)
  show ?thesis
    using d ns by (simp add: s c renders_observation_buttons_def)
qed

text \<open>
  The theorem of C9 on an assessment whose observation has been typed and not saved, and its
  rendering condition on an assessment whose observation is \<^verbatim>\<open>null\<close> and whose buffer is
  absent.
\<close>

theorem observation_buffer_sync_witness:
  "observation_save
     (rendered_forms ''/a'' [(scenario_assessment ''r1'' [])\<lparr>observation := Str ''draft''\<rparr>])
     ((scenario_assessment ''r1'' [])\<lparr>observation := Str ''draft''\<rparr>) =
   ((scenario_assessment ''r1'' [])\<lparr>observation := Str ''draft'', observationBuffer := Str ''draft''\<rparr>,
    Inr [\<lparr>url = ''/a?/updateRequirementAssessment'', http_method = ''POST'',
           body = [(''id'', Scalar (Str ''r1'')), (''observation'', Scalar (Str ''draft''))]\<rparr>])
   \<and> observation (fst (observation_cancel ((scenario_assessment ''r1'' [])\<lparr>observation := Str ''draft''\<rparr>))) = Null
   \<and> renders_observation_buttons False ((scenario_assessment ''r1'' [])\<lparr>observationBuffer := Undefined\<rparr>)"
proof -
  let ?ra = "(scenario_assessment ''r1'' [])\<lparr>observation := Str ''draft''\<rparr>"
  have h1: "?ra \<in> set [?ra]" by simp
  have h2: "renders_observation_buttons False ?ra"
    by (simp add: renders_observation_buttons_def scenario_assessment_def)
  note t = observation_buffer_sync [where ra = ?ra and ras = "[?ra]" and is_shallow = False
      and actionPath = "''/a''", OF h1 h2]
  note c = t [THEN conjunct2, THEN conjunct2, THEN conjunct2, THEN conjunct2]
  note r = c [THEN conjunct2, THEN conjunct2, THEN conjunct2, THEN conjunct2, THEN conjunct2,
      THEN spec, THEN spec,
      of False "(scenario_assessment ''r1'' [])\<lparr>observationBuffer := Undefined\<rparr>"]
  have "observation (fst (observation_cancel ?ra)) = Null"
    using c [THEN conjunct1] by (simp add: scenario_assessment_def)
  moreover have "renders_observation_buttons False
      ((scenario_assessment ''r1'' [])\<lparr>observationBuffer := Undefined\<rparr>)"
    using r by (simp add: scenario_assessment_def)
  ultimately show ?thesis
    using t [THEN conjunct2, THEN conjunct1] by (simp add: scenario_assessment_def)
qed

text \<open>
  C9 as stated fails on a shallow page: the two fields of the assessment differ, and the
  buttons are not shown.
\<close>

theorem observation_buffer_sync_counterexample:
  "observationBuffer ((scenario_assessment ''r1'' [])\<lparr>observation := Str ''draft''\<rparr>)
     \<noteq> observation ((scenario_assessment ''r1'' [])\<lparr>observation := Str ''draft''\<rparr>)
   \<and> \<not> renders_observation_buttons True
         ((scenario_assessment ''r1'' [])\<lparr>observation := Str ''draft''\<rparr>)"
  by (simp add: renders_observation_buttons_def scenario_assessment_def)

text \<open>
  C10. Cancelling an observation edit dispatches no request: it sets the observation to the
  buffer and leaves every other field of the assessment as it was. The save button is the
  one that dispatches a request, carrying the observation.
\<close>

theorem observation_cancel_local:
  "snd (observation_cancel ra) = Inr []
   \<and> observation (fst (observation_cancel ra)) = observationBuffer ra
   \<and> (fst (observation_cancel ra))\<lparr>observation := observation ra\<rparr> = ra
   \<and> (\<forall>action. doc (form_id ra) = Some action \<longrightarrow>
         snd (observation_save doc ra) =
           Inr [\<lparr>url = action, http_method = ''POST'',
                  body = [(''id'', Scalar (Str (ra_id ra))),
                          (''observation'', Scalar (observation ra))]\<rparr>])"
  by (simp add: observation_cancel_def observation_save_def update_def post_def and_then_def)

text \<open>The theorem of C10 on an assessment with an unsaved observation and a rendered form.\<close>

theorem observation_cancel_local_witness:
  "snd (observation_cancel ((scenario_assessment ''r1'' [])\<lparr>observation := Str ''draft''\<rparr>)) = Inr []
   \<and> observation (fst (observation_cancel ((scenario_assessment ''r1'' [])\<lparr>observation := Str ''draft''\<rparr>))) = Null
   \<and> snd (observation_save (rendered_forms ''/a'' [scenario_assessment ''r1'' []])
            ((scenario_assessment ''r1'' [])\<lparr>observation := Str ''draft''\<rparr>)) =
       Inr [\<lparr>url = ''/a?/updateRequirementAssessment'', http_method = ''POST'',
              body = [(''id'', Scalar (Str ''r1'')), (''observation'', Scalar (Str ''draft''))]\<rparr>]"
proof -
  let ?ra = "(scenario_assessment ''r1'' [])\<lparr>observation := Str ''draft''\<rparr>"
  let ?doc = "rendered_forms ''/a'' [scenario_assessment ''r1'' []]"
  have h: "?doc (form_id ?ra) = Some ''/a?/updateRequirementAssessment''"
    by (simp add: rendered_forms_def form_id_def scenario_assessment_def)
  note t = observation_cancel_local [where ra = ?ra and doc = ?doc]
  have "snd (observation_save ?doc ?ra) =
       Inr [\<lparr>url = ''/a?/updateRequirementAssessment'', http_method = ''POST'',
              body = [(''id'', Scalar (Str ''r1'')), (''observation'', Scalar (Str ''draft''))]\<rparr>]"
    using t [THEN conjunct2, THEN conjunct2, THEN conjunct2, THEN spec, THEN mp, OF h]
    by (simp add: scenario_assessment_def)
  moreover have "observation (fst (observation_cancel ?ra)) = Null"
    using t [THEN conjunct2, THEN conjunct1] by (simp add: scenario_assessment_def)
  ultimately show ?thesis using t [THEN conjunct1] by blast
qed

text \<open>
  C2, evaluated. Two creation events for \<^verbatim>\<open>r2\<close> arrive one after the other on a shallow
  page. Each merge appends its record to the evidence list of \<^verbatim>\<open>r2\<close>, leaves \<^verbatim>\<open>r1\<close> alone
  and clears the pending event; the counter is 1 after the first merge and still 1 after the
  second, since the block assigns \<^verbatim>\<open>+1\<close> to it.
\<close>

theorem merge_counter_after_two_events:
  "receive_form (Some (scenario_event ''e9'' ''Policy.pdf'' [''r2'']))
     (scenario_component [scenario_assessment ''r1'' [], scenario_assessment ''r2'' []] None) =
   ((scenario_component
       [scenario_assessment ''r1'' [],
        scenario_assessment ''r2'' [\<lparr>str = ''Policy.pdf'', ev_id = ''e9''\<rparr>]] None)
      \<lparr>addedEvidence := 1\<rparr>, None)
   \<and> receive_form (Some (scenario_event ''e10'' ''Audit.pdf'' [''r2'']))
       ((scenario_component
           [scenario_assessment ''r1'' [],
            scenario_assessment ''r2'' [\<lparr>str = ''Policy.pdf'', ev_id = ''e9''\<rparr>]] None)
          \<lparr>addedEvidence := 1\<rparr>) =
     ((scenario_component
         [scenario_assessment ''r1'' [],
          scenario_assessment ''r2'' [\<lparr>str = ''Policy.pdf'', ev_id = ''e9''\<rparr>,
                                      \<lparr>str = ''Audit.pdf'', ev_id = ''e10''\<rparr>]] None)
        \<lparr>addedEvidence := 1\<rparr>, None)"
  by (simp add: receive_form_def merge_createdEvidence_def at_index_def scenario_event_def
      scenario_component_def scenario_assessment_def)

text \<open>
  C4, evaluated. A creation event for \<^verbatim>\<open>r3\<close> arrives on a shallow page whose collection
  holds \<^verbatim>\<open>r1\<close> and \<^verbatim>\<open>r2\<close>. The block raises a \<^verbatim>\<open>TypeError\<close>; no evidence list and not the
  counter have changed, and the event is still pending.
\<close>

theorem merge_miss_raises:
  "receive_form (Some (scenario_event ''e9'' ''Policy.pdf'' [''r3'']))
     (scenario_component [scenario_assessment ''r1'' [], scenario_assessment ''r2'' []] None) =
   (scenario_component [scenario_assessment ''r1'' [], scenario_assessment ''r2'' []]
      (Some (scenario_event ''e9'' ''Policy.pdf'' [''r3''])),
    Some TypeError)"
  by (simp add: receive_form_def merge_createdEvidence_def at_index_def scenario_event_def
      scenario_component_def scenario_assessment_def)

text \<open>
  C5, evaluated. Four inputs on which a state synchronisation operation raises: a creation
  event with an empty requirement list, \<^verbatim>\<open>update\<close> with a question whose \<^verbatim>\<open>urn\<close> is not in
  the bundle, \<^verbatim>\<open>update\<close> with a question on an assessment without answer, and evidence
  removal on a collection whose first record has no evidence array.
\<close>

theorem state_sync_raises:
  "receive_form (Some (scenario_event ''e9'' ''Policy.pdf'' []))
     (scenario_component [scenario_assessment ''r1'' []] None) =
   (scenario_component [scenario_assessment ''r1'' []] (Some (scenario_event ''e9'' ''Policy.pdf'' [])),
    Some TypeError)
   \<and> update (rendered_forms ''/a'' [scenario_assessment ''r1'' []])
       ((scenario_assessment ''r1'' [])\<lparr>answer := Some (scenario_bundle [''u0'', ''u1''])\<rparr>)
       ''answer'' (Str ''X'') (Some (scenario_question ''u9'')) =
     ((scenario_assessment ''r1'' [])\<lparr>answer := Some (scenario_bundle [''u0'', ''u1''])\<rparr>,
      Inl TypeError)
   \<and> update (rendered_forms ''/a'' [scenario_assessment ''r1'' []])
       (scenario_assessment ''r1'' []) ''answer'' (Str ''X'') (Some (scenario_question ''u0'')) =
     (scenario_assessment ''r1'' [], Inl TypeError)
   \<and> snd (modalConfirmDelete ''e1'' ''file-e1''
            (scenario_page [scenario_definition ''req-r1'' (Str ''A.1'') Null]
               [scenario_assessment ''r1'' [scenario_evidence ''e1'']])) = Some TypeError"
  by (simp add: receive_form_def merge_createdEvidence_def update_def at_index_def
      modalConfirmDelete_def scenario_page_def scenario_definition_def
      scenario_event_def scenario_component_def scenario_assessment_def scenario_bundle_def
      scenario_question_def)

end
